theory Spec2Isabelle
  imports Complex_Main
begin

section \<open>Messages\<close>

text \<open>
  A \<open>geometry_msgs/Twist\<close> message: a linear and an angular velocity, three floats each.
  Python floats are taken as real numbers throughout; \<open>Twist()\<close> has every field zero.
\<close>

record twist =
  linear_x :: real
  linear_y :: real
  linear_z :: real
  angular_x :: real
  angular_y :: real
  angular_z :: real

definition Twist :: twist where
  "Twist = \<lparr> linear_x = 0, linear_y = 0, linear_z = 0,
              angular_x = 0, angular_y = 0, angular_z = 0 \<rparr>"

section \<open>The command limiter (communication_pipeline/src/dispatcher.py)\<close>

definition VELOCITY_COMMAND_LIMIT :: real where
  "VELOCITY_COMMAND_LIMIT = 9 / 100"

text \<open>
  The \<open>Dispatcher\<close> object: the \<open>landed\<close> flag, and the messages handed to
  \<open>local_velocity_setpoint_pub.publish\<close> so far, oldest first.
\<close>

record dispatcher =
  landed :: "bool option"
  setpoint_pub :: "twist list"

definition velocity_command_callback :: "twist \<Rightarrow> dispatcher \<Rightarrow> dispatcher" where
  "velocity_command_callback msg d =
     (let vel_cmd_limited = Twist;
          vel_cmd_limited =
            (if linear_x msg > VELOCITY_COMMAND_LIMIT
               then vel_cmd_limited \<lparr> linear_x := VELOCITY_COMMAND_LIMIT \<rparr>
             else if linear_x msg < - VELOCITY_COMMAND_LIMIT
               then vel_cmd_limited \<lparr> linear_x := - VELOCITY_COMMAND_LIMIT \<rparr>
             else vel_cmd_limited \<lparr> linear_x := linear_x msg \<rparr>);
          vel_cmd_limited = vel_cmd_limited \<lparr> linear_y := 0 \<rparr>;
          vel_cmd_limited = vel_cmd_limited \<lparr> linear_z := 0 \<rparr>
      in d \<lparr> setpoint_pub := setpoint_pub d @ [vel_cmd_limited] \<rparr>)"

section \<open>Errors and results (open_loop_control/src/translation_control.py)\<close>

text \<open>
  The exceptions the module can raise, each with its message. A call either returns, raises,
  or is still running when the recorded environment ends (\<open>Blocked\<close>): the loops of the
  module wait on the wall clock, and the model reads the clock from a finite list.
\<close>

datatype error =
    NameError string
  | AttributeError string
  | TypeError string
  | ValueError string
  | IndexError string
  | ZeroDivisionError string

datatype 'a result = Ok 'a | Raise error | Blocked

section \<open>Constants\<close>

definition RATE :: real where "RATE = 10"
definition MAX_DISTANCE :: real where "MAX_DISTANCE = 2"
definition MAX_SPEED :: real where "MAX_SPEED = 5 / 10"
definition MIN_SPEED :: real where "MIN_SPEED = 1 / 100"

text \<open>
  The names bound at module level, each with the number it is bound to when it is bound to
  a number. The module binds modules, classes and functions only (\<open>MANEUVERS\<close> and
  \<open>controller\<close> in the main block are a list and an object): the constants above are
  attributes of the class \<open>Constants\<close>, not module names.
\<close>

definition module_globals :: "(string \<times> real option) list" where
  "module_globals =
     [(''rospy'', None), (''threading'', None), (''mavros'', None), (''math'', None),
      (''np'', None), (''tft'', None), (''deepcopy'', None), (''State'', None),
      (''Twist'', None), (''PoseStamped'', None), (''time'', None), (''Constants'', None),
      (''StaticTransforms'', None), (''get_lenu_velocity'', None),
      (''TranslationController'', None), (''s_man'', None), (''line_man'', None),
      (''par_man'', None), (''lincoln_path'', None), (''moustache'', None),
      (''MANEUVERS'', None), (''controller'', None)]"

definition load_global :: "string \<Rightarrow> error + real" where
  "load_global name =
     (case map_of module_globals name of
        None \<Rightarrow> Inl (NameError (''global name '' @ name @ '' is not defined''))
      | Some None \<Rightarrow> Inl (TypeError ''unsupported operand type(s) for /'')
      | Some (Some x) \<Rightarrow> Inr x)"

section \<open>Matrices and the transformations library\<close>

text \<open>
  Homogeneous 4x4 matrices as lists of rows. \<open>rotation_matrix\<close>, \<open>identity_matrix\<close>,
  \<open>concatenate_matrices\<close> and \<open>quaternion_matrix\<close> are the functions of
  \<open>tf.transformations\<close> the module calls, in exact real arithmetic.
\<close>

type_synonym matrix = "real list list"

definition dot :: "real list \<Rightarrow> real list \<Rightarrow> real" where
  "dot u v = sum_list (map2 (*) u v)"

definition column :: "matrix \<Rightarrow> nat \<Rightarrow> real list" where
  "column m i = map (\<lambda>row. row ! i) m"

definition mat_T :: "matrix \<Rightarrow> matrix" where
  "mat_T m = map (column m) [0 ..< length (hd m)]"

definition concatenate_matrices :: "matrix \<Rightarrow> matrix \<Rightarrow> matrix" where
  "concatenate_matrices a b = map (\<lambda>row. map (dot row) (mat_T b)) a"

definition identity_matrix :: matrix where
  "identity_matrix = [[1, 0, 0, 0], [0, 1, 0, 0], [0, 0, 1, 0], [0, 0, 0, 1]]"

definition unit_vector :: "real list \<Rightarrow> real list" where
  "unit_vector d = map (\<lambda>x. x / sqrt (dot d d)) d"

definition rotation_matrix :: "real \<Rightarrow> real list \<Rightarrow> matrix" where
  "rotation_matrix angle direction =
     (let sina = sin angle; cosa = cos angle;
          d = unit_vector (take 3 direction);
          d0 = d ! 0; d1 = d ! 1; d2 = d ! 2
      in [[cosa + d0 * d0 * (1 - cosa), d0 * d1 * (1 - cosa) - d2 * sina,
             d0 * d2 * (1 - cosa) + d1 * sina, 0],
          [d1 * d0 * (1 - cosa) + d2 * sina, cosa + d1 * d1 * (1 - cosa),
             d1 * d2 * (1 - cosa) - d0 * sina, 0],
          [d2 * d0 * (1 - cosa) - d1 * sina, d2 * d1 * (1 - cosa) + d0 * sina,
             cosa + d2 * d2 * (1 - cosa), 0],
          [0, 0, 0, 1]])"

definition EPS :: real where
  "EPS = 4 / 2 ^ 52"

text \<open>
  \<open>np.dot(R, v)\<close> of a matrix and a list: the shapes must agree.
\<close>

definition np_dot :: "matrix \<Rightarrow> real list \<Rightarrow> error + real list" where
  "np_dot m v =
     (if length (hd m) = length v then Inr (map (\<lambda>row. dot row v) m)
      else Inl (ValueError ''shapes not aligned''))"

text \<open>
  \<open>quaternion_matrix\<close> slices its argument first, which fails on \<open>None\<close>; a quaternion
  of nearly zero norm gives the identity.
\<close>

definition quaternion_matrix :: "real list option \<Rightarrow> error + matrix" where
  "quaternion_matrix quaternion =
     (case quaternion of
        None \<Rightarrow> Inl (TypeError ''NoneType object has no attribute __getitem__'')
      | Some q0 \<Rightarrow>
          (let q = take 4 q0; nq = dot q q in
           if nq < EPS then Inr identity_matrix
           else if length q < 4 then Inl (IndexError ''index out of bounds'')
           else
             (let s = map (\<lambda>x. x * sqrt (2 / nq)) q;
                  qq = (\<lambda>i j. s ! i * s ! j)
              in Inr [[1 - qq 1 1 - qq 2 2, qq 0 1 - qq 2 3, qq 0 2 + qq 1 3, 0],
                      [qq 0 1 + qq 2 3, 1 - qq 0 0 - qq 2 2, qq 1 2 - qq 0 3, 0],
                      [qq 0 2 - qq 1 3, qq 1 2 + qq 0 3, 1 - qq 0 0 - qq 1 1, 0],
                      [0, 0, 0, 1]])))"

section \<open>StaticTransforms\<close>

definition R_lenu2lned :: matrix where "R_lenu2lned = rotation_matrix pi [1, 0, 0]"
definition R_bu2bd :: matrix where "R_bu2bd = rotation_matrix pi [1, 0, 0]"
definition R_dc2bd :: matrix where "R_dc2bd = identity_matrix"
definition R_fc2bd :: matrix where
  "R_fc2bd = [[0, 0, 1, 0], [1, 0, 0, 0], [0, 1, 0, 0], [0, 0, 0, 1]]"

definition R_lned2lenu :: matrix where "R_lned2lenu = mat_T R_lenu2lned"
definition R_bd2bu :: matrix where "R_bd2bu = mat_T R_bu2bd"
definition R_bd2dc :: matrix where "R_bd2dc = mat_T R_dc2bd"
definition R_bd2fc :: matrix where "R_bd2fc = mat_T R_fc2bd"

definition R_dc2fc :: matrix where "R_dc2fc = concatenate_matrices R_bd2fc R_dc2bd"
definition R_fc2dc :: matrix where "R_fc2dc = mat_T R_dc2fc"
definition R_dc2bu :: matrix where "R_dc2bu = concatenate_matrices R_bd2bu R_dc2bd"
definition R_bu2dc :: matrix where "R_bu2dc = mat_T R_dc2bu"
definition R_fc2bu :: matrix where "R_fc2bu = concatenate_matrices R_bd2bu R_fc2bd"
definition R_bu2fc :: matrix where "R_bu2fc = mat_T R_fc2bu"

text \<open>
  The attributes of the class whose names start with \<open>R_\<close>, as \<open>getattr\<close> finds them.
  The other attributes (\<open>__init__\<close>, \<open>coord_transform\<close>, \<open>__doc__\<close>, \<open>__module__\<close>)
  cannot be named by a string that starts with \<open>R_\<close>.
\<close>

definition static_attrs :: "(string \<times> matrix) list" where
  "static_attrs =
     [(''R_lenu2lned'', R_lenu2lned), (''R_bu2bd'', R_bu2bd), (''R_dc2bd'', R_dc2bd),
      (''R_fc2bd'', R_fc2bd), (''R_lned2lenu'', R_lned2lenu), (''R_bd2bu'', R_bd2bu),
      (''R_bd2dc'', R_bd2dc), (''R_bd2fc'', R_bd2fc), (''R_dc2fc'', R_dc2fc),
      (''R_fc2dc'', R_fc2dc), (''R_dc2bu'', R_dc2bu), (''R_bu2dc'', R_bu2dc),
      (''R_fc2bu'', R_fc2bu), (''R_bu2fc'', R_bu2fc)]"

definition no_static_transform :: "string \<Rightarrow> string \<Rightarrow> string" where
  "no_static_transform fin fout =
     ''No static transform exists from '' @ fin @ '' to '' @ fout @ ''.'' @
     '' Are you sure these frames are not moving relative to each other?''"

definition coord_transform :: "real list \<Rightarrow> string \<Rightarrow> string \<Rightarrow> error + real list" where
  "coord_transform v_fin fin fout =
     (if fin = fout then
        (case np_dot identity_matrix (v_fin @ [0]) of
           Inl e \<Rightarrow> Inl e
         | Inr v4_fout \<Rightarrow> Inr (take 3 v4_fout))
      else
        (case map_of static_attrs (''R_'' @ fin @ ''2'' @ fout) of
           None \<Rightarrow> Inl (AttributeError (no_static_transform fin fout))
         | Some R_i2o \<Rightarrow>
             (case np_dot R_i2o (v_fin @ [0]) of
                Inl e \<Rightarrow> Inl e
              | Inr v4_fout \<Rightarrow> Inr (take 3 v4_fout))))"

definition get_lenu_velocity ::
  "real list option \<Rightarrow> real list \<Rightarrow> string \<Rightarrow> error + real list" where
  "get_lenu_velocity q_bu_lenu v_fin fin =
     (if fin = ''lenu'' then Inr (take 3 v_fin)
      else if fin = ''lned'' then
        (case coord_transform v_fin ''lned'' ''lenu'' of
           Inl e \<Rightarrow> Inl e
         | Inr v_lenu \<Rightarrow> Inr (take 3 v_lenu))
      else
        (case quaternion_matrix q_bu_lenu of
           Inl e \<Rightarrow> Inl e
         | Inr R_bu2lenu \<Rightarrow>
             (case coord_transform v_fin fin ''bu'' of
                Inl e \<Rightarrow> Inl e
              | Inr v_bu \<Rightarrow>
                  (case np_dot R_bu2lenu (v_bu @ [0]) of
                     Inl e \<Rightarrow> Inl e
                   | Inr v_lenu \<Rightarrow> Inr (take 3 v_lenu)))))"

section \<open>Maneuvers\<close>

text \<open>
  The three maneuver classes with the attributes their constructors set: \<open>s_man\<close> has
  \<open>vel_set\<close>, \<open>ref\<close> and \<open>dur\<close>; \<open>line_man\<close> has \<open>disp\<close>, \<open>ref\<close> and \<open>dur\<close>
  (and \<open>f\<close>, the closure \<open>line_parametric\<close> below); \<open>par_man\<close> has \<open>f\<close>, \<open>ref\<close> and
  \<open>domain\<close>, and no \<open>dur\<close>.
\<close>

datatype maneuver =
    S_man "real list" real string
  | Line_man "real list" real string
  | Par_man "real \<Rightarrow> real list" real string

fun s_man :: "real list \<Rightarrow> real \<Rightarrow> string \<Rightarrow> maneuver" where
  "s_man vel_set dur ref = S_man vel_set dur ref"

fun line_man :: "real list \<Rightarrow> real \<Rightarrow> string \<Rightarrow> maneuver" where
  "line_man disp dur ref = Line_man disp dur ref"

fun par_man :: "(real \<Rightarrow> real list) \<Rightarrow> real \<Rightarrow> string \<Rightarrow> maneuver" where
  "par_man vel_func domain ref = Par_man vel_func domain ref"

fun ref :: "maneuver \<Rightarrow> string" where
  "ref (S_man vel_set dur r) = r"
| "ref (Line_man disp dur r) = r"
| "ref (Par_man f domain r) = r"

text \<open>The attribute \<open>self.dur\<close>: an instance of \<open>par_man\<close> has none.\<close>

fun dur :: "maneuver \<Rightarrow> error + real" where
  "dur (S_man vel_set d r) = Inr d"
| "dur (Line_man disp d r) = Inr d"
| "dur (Par_man f domain r) = Inl (AttributeError ''par_man instance has no attribute dur'')"

text \<open>
  \<open>line_parametric\<close> is the closure \<open>parametric\<close> of \<open>line_man\<close>: one component for
  each component of the displacement, in order. Dividing a float by zero raises.
\<close>

fun line_parametric :: "real list \<Rightarrow> real \<Rightarrow> real \<Rightarrow> error + real list" where
  "line_parametric [] d t = Inr []"
| "line_parametric (disp_var # disp) d t =
     (if d ^ 3 = 0 then Inl (ZeroDivisionError ''float division by zero'')
      else (case line_parametric disp d t of
              Inl e \<Rightarrow> Inl e
            | Inr toRet \<Rightarrow> Inr ((- 6 * disp_var / d ^ 3 * (t * (t - d))) # toRet)))"

text \<open>
  One pull from the generator \<open>__iter__\<close>. The wall clock is the list of the values the
  successive calls of \<open>time()\<close> return; \<open>TIMER.sleep()\<close> only lets time pass. The
  generator's state is its \<open>start_time\<close>, \<open>None\<close> before the first pull. The loop test
  \<open>time() - start_time < self.dur\<close> reads the clock first and the attribute second.
\<close>

datatype pull =
    Yield "real list" real "real list"
  | StopIteration "real list"
  | GenRaise error "real list"
  | NoClock

fun loop_test :: "maneuver \<Rightarrow> real \<Rightarrow> real list \<Rightarrow> pull" where
  "loop_test man start_time [] = NoClock"
| "loop_test man start_time (now # clock) =
     (case dur man of
        Inl e \<Rightarrow> GenRaise e clock
      | Inr d \<Rightarrow>
          if now - start_time < d then
            (case man of
               S_man vel_set d' r \<Rightarrow> Yield vel_set start_time clock
             | Line_man disp d' r \<Rightarrow>
                 (case clock of
                    [] \<Rightarrow> NoClock
                  | now' # clock' \<Rightarrow>
                      (case line_parametric disp d' (now' - start_time) of
                         Inl e \<Rightarrow> GenRaise e clock'
                       | Inr v \<Rightarrow> Yield v start_time clock'))
             | Par_man f domain r \<Rightarrow>
                 (case clock of
                    [] \<Rightarrow> NoClock
                  | now' # clock' \<Rightarrow> Yield (f (now' - start_time)) start_time clock'))
          else StopIteration clock)"

fun next_sample :: "maneuver \<Rightarrow> real option \<Rightarrow> real list \<Rightarrow> pull" where
  "next_sample man None [] = NoClock"
| "next_sample man None (start_time # clock) = loop_test man start_time clock"
| "next_sample man (Some start_time) clock = loop_test man start_time clock"

section \<open>TranslationController\<close>

text \<open>A \<open>mavros_msgs/State\<close> message; the controller reads its \<open>mode\<close> only.\<close>

record state_msg =
  mode :: string

definition State :: state_msg where
  "State = \<lparr> mode = [] \<rparr>"

record controller =
  vel_setpoint_bu_lenu__lenu :: twist
  current_state :: state_msg
  prev_state :: state_msg
  q_bu_lenu :: "real list option"
  offboard_point_streaming :: bool
  maneuvers :: "maneuver list"

text \<open>
  What the controller reads from outside while it runs, and a record of what it wrote.
  \<open>clock\<close> is the wall clock as above. \<open>polls\<close> holds, for each sample boundary in turn,
  what \<open>rospy.is_shutdown()\<close> returns and what \<open>self.current_state.mode\<close> reads there (the
  field is shared with the callbacks that run meanwhile). \<open>slot_writes\<close> lists every value
  the setpoint slot has held, oldest first: each assignment to the slot or to one of its
  fields adds the slot's new value.
\<close>

record world =
  clock :: "real list"
  polls :: "(bool \<times> string) list"
  slot_writes :: "twist list"

definition init :: "maneuver list \<Rightarrow> controller" where
  "init mans =
     \<lparr> vel_setpoint_bu_lenu__lenu = Twist, current_state = State, prev_state = State,
       q_bu_lenu = None, offboard_point_streaming = False, maneuvers = mans \<rparr>"

definition set_slot :: "twist \<Rightarrow> controller \<times> world \<Rightarrow> controller \<times> world" where
  "set_slot t cw =
     (fst cw \<lparr> vel_setpoint_bu_lenu__lenu := t \<rparr>,
      snd cw \<lparr> slot_writes := slot_writes (snd cw) @ [t] \<rparr>)"

definition slot :: "controller \<times> world \<Rightarrow> twist" where
  "slot cw = vel_setpoint_bu_lenu__lenu (fst cw)"

definition set_clock :: "real list \<Rightarrow> controller \<times> world \<Rightarrow> controller \<times> world" where
  "set_clock clk cw = (fst cw, snd cw \<lparr> clock := clk \<rparr>)"

definition set_polls ::
  "(bool \<times> string) list \<Rightarrow> controller \<times> world \<Rightarrow> controller \<times> world" where
  "set_polls ps cw = (fst cw, snd cw \<lparr> polls := ps \<rparr>)"

text \<open>
  The body of the loop of \<open>execute_maneuver\<close> up to the test: the slot is replaced by a
  fresh \<open>Twist()\<close>, the sample is transformed, and its first three components are stored
  one by one; an index past the end of the transformed sample raises.
\<close>

definition write_sample ::
  "maneuver \<Rightarrow> real list \<Rightarrow> controller \<times> world \<Rightarrow> unit result \<times> controller \<times> world" where
  "write_sample man vel cw =
     (let cw1 = set_slot Twist cw in
      case get_lenu_velocity (q_bu_lenu (fst cw1)) vel (ref man) of
        Inl e \<Rightarrow> (Raise e, cw1)
      | Inr v \<Rightarrow>
          if length v \<le> 0 then (Raise (IndexError ''index out of bounds''), cw1)
          else
            (let cw2 = set_slot (slot cw1 \<lparr> linear_x := v ! 0 \<rparr>) cw1 in
             if length v \<le> 1 then (Raise (IndexError ''index out of bounds''), cw2)
             else
               (let cw3 = set_slot (slot cw2 \<lparr> linear_y := v ! 1 \<rparr>) cw2 in
                if length v \<le> 2 then (Raise (IndexError ''index out of bounds''), cw3)
                else (Ok (), set_slot (slot cw3 \<lparr> linear_z := v ! 2 \<rparr>) cw3))))"

text \<open>
  The loop of \<open>execute_maneuver\<close> from the generator state \<open>g\<close> on, and the reset after
  it. Each round pulls a sample, writes it, and tests for shutdown and for the flight mode.
\<close>

function execute_loop ::
  "maneuver \<Rightarrow> real option \<Rightarrow> controller \<times> world \<Rightarrow> unit result \<times> controller \<times> world" where
  "execute_loop man g cw =
     (case next_sample man g (clock (snd cw)) of
        NoClock \<Rightarrow> (Blocked, cw)
      | GenRaise e clk \<Rightarrow> (Raise e, set_clock clk cw)
      | StopIteration clk \<Rightarrow> (Ok (), set_slot Twist (set_clock clk cw))
      | Yield vel start_time clk \<Rightarrow>
          (case write_sample man vel (set_clock clk cw) of
             (Ok u, cw') \<Rightarrow>
               (case polls (snd cw') of
                  [] \<Rightarrow> (Blocked, cw')
                | (is_shutdown, md) # ps \<Rightarrow>
                    if is_shutdown \<or> md \<noteq> ''OFFBOARD''
                    then (Ok (), set_slot Twist (set_polls ps cw'))
                    else execute_loop man (Some start_time) (set_polls ps cw'))
           | (Raise e, cw') \<Rightarrow> (Raise e, cw')
           | (Blocked, cw') \<Rightarrow> (Blocked, cw')))"
  by pat_completeness auto

definition execute_maneuver ::
  "maneuver \<Rightarrow> controller \<times> world \<Rightarrow> unit result \<times> controller \<times> world" where
  "execute_maneuver man cw = execute_loop man None cw"

definition hover :: "controller \<times> world \<Rightarrow> controller \<times> world" where
  "hover cw = set_slot Twist cw"

text \<open>
  Starting and stopping the streaming thread, as far as the controller's own fields go: the
  thread sets the flag as its first statement, and stopping clears it and joins the thread.
\<close>

definition start_streaming_offboard_points ::
  "controller \<times> world \<Rightarrow> controller \<times> world" where
  "start_streaming_offboard_points cw = (fst cw \<lparr> offboard_point_streaming := True \<rparr>, snd cw)"

definition stop_streaming_offboard_points ::
  "controller \<times> world \<Rightarrow> controller \<times> world" where
  "stop_streaming_offboard_points cw = (fst cw \<lparr> offboard_point_streaming := False \<rparr>, snd cw)"

text \<open>
  One round of the loop of \<open>run_streaming\<close>, on the value the slot holds at that tick:
  \<open>Inr (Some t)\<close> when it publishes \<open>t\<close>, \<open>Inr None\<close> when it publishes nothing, \<open>Inl e\<close>
  when it raises. The scaling statements read the module name \<open>MAX_SPEED\<close>, the test
  before them reads the attribute \<open>Constants.MAX_SPEED\<close>.
\<close>

definition run_streaming_body :: "twist option \<Rightarrow> error + twist option" where
  "run_streaming_body vel_setpoint =
     (case vel_setpoint of
        None \<Rightarrow> Inr None
      | Some velsp_limited \<Rightarrow>
          (let speed = sqrt ((linear_x velsp_limited)\<^sup>2 + (linear_y velsp_limited)\<^sup>2
                             + (linear_z velsp_limited)\<^sup>2)
           in if speed > MAX_SPEED then
                (case load_global ''MAX_SPEED'' of
                   Inl e \<Rightarrow> Inl e
                 | Inr m \<Rightarrow>
                     Inr (Some (velsp_limited
                       \<lparr> linear_x := linear_x velsp_limited * (m / speed),
                         linear_y := linear_y velsp_limited * (m / speed),
                         linear_z := linear_z velsp_limited * (m / speed) \<rparr>)))
              else Inr (Some velsp_limited)))"

definition pose_sub_cb :: "real list \<Rightarrow> controller \<Rightarrow> controller" where
  "pose_sub_cb orientation c = c \<lparr> q_bu_lenu := Some orientation \<rparr>"

fun run_maneuvers ::
  "maneuver list \<Rightarrow> controller \<times> world \<Rightarrow> unit result \<times> controller \<times> world" where
  "run_maneuvers [] cw = (Ok (), cw)"
| "run_maneuvers (man # mans) cw =
     (case execute_maneuver man cw of
        (Ok u, cw') \<Rightarrow> run_maneuvers mans cw'
      | (Raise e, cw') \<Rightarrow> (Raise e, cw')
      | (Blocked, cw') \<Rightarrow> (Blocked, cw'))"

definition state_cb ::
  "state_msg \<Rightarrow> controller \<times> world \<Rightarrow> unit result \<times> controller \<times> world" where
  "state_cb msg cw =
     (let cw1 = (fst cw \<lparr> prev_state := current_state (fst cw) \<rparr>, snd cw);
          cw2 = (fst cw1 \<lparr> current_state := msg \<rparr>, snd cw1);
          cw3 = (if mode (current_state (fst cw2)) = ''MANUAL''
                   \<and> offboard_point_streaming (fst cw2)
                 then stop_streaming_offboard_points cw2 else cw2);
          cw4 = (if mode (current_state (fst cw3)) = ''POSCTL''
                   \<and> \<not> offboard_point_streaming (fst cw3)
                 then start_streaming_offboard_points cw3 else cw3);
          cw5 = (if mode (current_state (fst cw4)) = ''POSCTL''
                   \<and> \<not> mode (prev_state (fst cw4)) = ''POSCTL''
                 then hover cw4 else cw4)
      in if mode (current_state (fst cw5)) = ''OFFBOARD''
           \<and> \<not> mode (prev_state (fst cw5)) = ''OFFBOARD''
         then run_maneuvers (maneuvers (fst cw5)) cw5
         else (Ok (), cw5))"

text \<open>
  A sequence of mode updates delivered to the controller one after the other. A callback
  that raises leaves the controller as it was at the raise; a callback that has not returned
  when the recorded environment ends stops the sequence.
\<close>

fun state_updates ::
  "state_msg list \<Rightarrow> controller \<times> world \<Rightarrow> unit result \<times> controller \<times> world" where
  "state_updates [] cw = (Ok (), cw)"
| "state_updates (msg # msgs) cw =
     (case state_cb msg cw of
        (Blocked, cw') \<Rightarrow> (Blocked, cw')
      | (r, cw') \<Rightarrow> state_updates msgs cw')"

section \<open>Notions used to state the properties\<close>

text \<open>
  What the test at a sample boundary lets pass: no shutdown, and the mode read is OFFBOARD.
\<close>

definition go_ahead :: "bool \<times> string \<Rightarrow> bool" where
  "go_ahead p = (\<not> (fst p \<or> snd p \<noteq> ''OFFBOARD''))"

text \<open>
  The velocity profile of the smooth line as the specification writes it, for one axis; the
  position it integrates to; and the left Riemann sum of a function over the interval from
  0 to \<open>b\<close> cut into \<open>n\<close> equal parts.
\<close>

definition smooth_line_velocity :: "real \<Rightarrow> real \<Rightarrow> real \<Rightarrow> real" where
  "smooth_line_velocity disp_i duration t = - 6 * disp_i / duration ^ 3 * t * (t - duration)"

definition smooth_line_position :: "real \<Rightarrow> real \<Rightarrow> real \<Rightarrow> real" where
  "smooth_line_position disp_i duration t =
     disp_i * (3 * t ^ 2 / duration ^ 2 - 2 * t ^ 3 / duration ^ 3)"

definition riemann_sum :: "(real \<Rightarrow> real) \<Rightarrow> real \<Rightarrow> nat \<Rightarrow> real" where
  "riemann_sum f b n = (\<Sum>k<n. f (real k * b / real n) * (b / real n))"

section \<open>Termination of the maneuver loop\<close>

lemma loop_test_shorter:
  "loop_test man t0 clk = Yield v t0' clk' \<Longrightarrow> length clk' < length clk"
  by (cases clk; cases man)
     (auto split: sum.splits if_splits list.splits)

lemma next_sample_shorter:
  "next_sample man g clk = Yield v t0' clk' \<Longrightarrow> length clk' < length clk"
proof (cases g)
  case None
  assume y: "next_sample man g clk = Yield v t0' clk'"
  show ?thesis
  proof (cases clk)
    case Nil
    with None y show ?thesis by simp
  next
    case (Cons t0 rest)
    with None y have "loop_test man t0 rest = Yield v t0' clk'" by simp
    then have "length clk' < length rest" by (rule loop_test_shorter)
    with Cons show ?thesis by simp
  qed
next
  case (Some t0)
  assume "next_sample man g clk = Yield v t0' clk'"
  with Some have "loop_test man t0 clk = Yield v t0' clk'" by simp
  then show ?thesis by (rule loop_test_shorter)
qed

lemma write_sample_clock:
  "write_sample man vel cw = (r, cw') \<Longrightarrow> clock (snd cw') = clock (snd cw)"
  by (auto simp: write_sample_def set_slot_def slot_def Let_def
           split: sum.splits if_splits)

termination execute_loop
proof (relation "measure (\<lambda>(man, g, cw). length (clock (snd cw)))", goal_cases)
  case 1
  show ?case by simp
next
  case (2 man g cw vel start_time clk r cw' u p ps is_shutdown md)
  from 2(1) have "length clk < length (clock (snd cw))"
    by (rule next_sample_shorter)
  moreover from 2(2) have "clock (snd cw') = clock (snd (set_clock clk cw))"
    by (rule write_sample_clock [OF sym])
  ultimately show ?case by (simp add: set_polls_def set_clock_def)
qed

section \<open>Facts about the state and the maneuver loop\<close>

lemma set_slot_fields [simp]:
  "prev_state (fst (set_slot t cw)) = prev_state (fst cw)"
  "current_state (fst (set_slot t cw)) = current_state (fst cw)"
  "q_bu_lenu (fst (set_slot t cw)) = q_bu_lenu (fst cw)"
  "maneuvers (fst (set_slot t cw)) = maneuvers (fst cw)"
  "offboard_point_streaming (fst (set_slot t cw)) = offboard_point_streaming (fst cw)"
  "clock (snd (set_slot t cw)) = clock (snd cw)"
  "polls (snd (set_slot t cw)) = polls (snd cw)"
  "slot_writes (snd (set_slot t cw)) = slot_writes (snd cw) @ [t]"
  "slot (set_slot t cw) = t"
  by (simp_all add: set_slot_def slot_def)

lemma set_clock_fields [simp]:
  "fst (set_clock clk cw) = fst cw"
  "clock (snd (set_clock clk cw)) = clk"
  "polls (snd (set_clock clk cw)) = polls (snd cw)"
  "slot_writes (snd (set_clock clk cw)) = slot_writes (snd cw)"
  "slot (set_clock clk cw) = slot cw"
  by (simp_all add: set_clock_def slot_def)

lemma set_polls_fields [simp]:
  "fst (set_polls ps cw) = fst cw"
  "clock (snd (set_polls ps cw)) = clock (snd cw)"
  "polls (snd (set_polls ps cw)) = ps"
  "slot_writes (snd (set_polls ps cw)) = slot_writes (snd cw)"
  "slot (set_polls ps cw) = slot cw"
  by (simp_all add: set_polls_def slot_def)

lemma write_sample_not_Blocked: "write_sample man vel cw \<noteq> (Blocked, cw')"
  by (auto simp: write_sample_def Let_def split: sum.splits if_splits)

lemma write_sample_keeps:
  assumes "write_sample man vel cw = (r, cw')"
  shows "prev_state (fst cw') = prev_state (fst cw)"
    and "current_state (fst cw') = current_state (fst cw)"
    and "q_bu_lenu (fst cw') = q_bu_lenu (fst cw)"
    and "maneuvers (fst cw') = maneuvers (fst cw)"
    and "offboard_point_streaming (fst cw') = offboard_point_streaming (fst cw)"
    and "polls (snd cw') = polls (snd cw)"
    and "clock (snd cw') = clock (snd cw)"
  using assms
  by (auto simp: write_sample_def Let_def split: sum.splits if_splits)

lemma write_sample_Ok_writes:
  assumes "write_sample man vel cw = (Ok u, cw')"
  shows "length (slot_writes (snd cw')) = length (slot_writes (snd cw)) + 4"
  using assms
  by (auto simp: write_sample_def Let_def split: sum.splits if_splits)

lemma execute_loop_induct [case_names NoClock GenRaise Stop WriteRaise NoPoll Abort Continue]:
  assumes "\<And>man g cw. next_sample man g (clock (snd cw)) = NoClock \<Longrightarrow> P man g cw (Blocked, cw)"
    and "\<And>man g cw e clk. next_sample man g (clock (snd cw)) = GenRaise e clk \<Longrightarrow>
           P man g cw (Raise e, set_clock clk cw)"
    and "\<And>man g cw clk. next_sample man g (clock (snd cw)) = StopIteration clk \<Longrightarrow>
           P man g cw (Ok (), set_slot Twist (set_clock clk cw))"
    and "\<And>man g cw vel t0 clk e cw1.
           next_sample man g (clock (snd cw)) = Yield vel t0 clk \<Longrightarrow>
           write_sample man vel (set_clock clk cw) = (Raise e, cw1) \<Longrightarrow>
           P man g cw (Raise e, cw1)"
    and "\<And>man g cw vel t0 clk cw1.
           next_sample man g (clock (snd cw)) = Yield vel t0 clk \<Longrightarrow>
           write_sample man vel (set_clock clk cw) = (Ok (), cw1) \<Longrightarrow>
           polls (snd cw1) = [] \<Longrightarrow>
           P man g cw (Blocked, cw1)"
    and "\<And>man g cw vel t0 clk cw1 is_shutdown md ps.
           next_sample man g (clock (snd cw)) = Yield vel t0 clk \<Longrightarrow>
           write_sample man vel (set_clock clk cw) = (Ok (), cw1) \<Longrightarrow>
           polls (snd cw1) = (is_shutdown, md) # ps \<Longrightarrow>
           is_shutdown \<or> md \<noteq> ''OFFBOARD'' \<Longrightarrow>
           P man g cw (Ok (), set_slot Twist (set_polls ps cw1))"
    and "\<And>man g cw vel t0 clk cw1 is_shutdown md ps.
           next_sample man g (clock (snd cw)) = Yield vel t0 clk \<Longrightarrow>
           write_sample man vel (set_clock clk cw) = (Ok (), cw1) \<Longrightarrow>
           polls (snd cw1) = (is_shutdown, md) # ps \<Longrightarrow>
           \<not> (is_shutdown \<or> md \<noteq> ''OFFBOARD'') \<Longrightarrow>
           P man (Some t0) (set_polls ps cw1) (execute_loop man (Some t0) (set_polls ps cw1)) \<Longrightarrow>
           P man g cw (execute_loop man (Some t0) (set_polls ps cw1))"
  shows "P man g cw (execute_loop man g cw)"
proof (induction man g cw rule: execute_loop.induct)
  case (1 man g cw)
  show ?case
  proof (cases "next_sample man g (clock (snd cw))")
    case (Yield vel t0 clk)
    obtain r1 cw1 where w: "write_sample man vel (set_clock clk cw) = (r1, cw1)"
      by (cases "write_sample man vel (set_clock clk cw)")
    show ?thesis
    proof (cases r1)
      case (Ok u)
      then have w': "write_sample man vel (set_clock clk cw) = (Ok (), cw1)"
        using w by simp
      show ?thesis
      proof (cases "polls (snd cw1)")
        case Nil
        with Yield w' assms(5) [OF Yield w' Nil] show ?thesis
          by (simp add: execute_loop.simps [of man g cw])
      next
        case (Cons p ps)
        obtain sd md where p: "p = (sd, md)" by (cases p)
        show ?thesis
        proof (cases "sd \<or> md \<noteq> ''OFFBOARD''")
          case True
          with Yield w' Cons p assms(6) [OF Yield w' Cons [unfolded p] True] show ?thesis
            by (simp add: execute_loop.simps [of man g cw])
        next
          case False
          have ih: "P man (Some t0) (set_polls ps cw1) (execute_loop man (Some t0) (set_polls ps cw1))"
            by (rule 1 [OF Yield w [symmetric] Ok Cons p [symmetric] False])
          have "execute_loop man g cw = execute_loop man (Some t0) (set_polls ps cw1)"
            using Yield w' Cons p False by (simp add: execute_loop.simps [of man g cw])
          with assms(7) [OF Yield w' Cons [unfolded p] False ih] show ?thesis by simp
        qed
      qed
    next
      case (Raise e)
      with Yield w assms(4) [OF Yield, of e cw1] show ?thesis
        by (simp add: execute_loop.simps [of man g cw])
    next
      case Blocked
      with w write_sample_not_Blocked show ?thesis by blast
    qed
  next
    case (StopIteration clk)
    with assms(3) [OF StopIteration] show ?thesis
      by (simp add: execute_loop.simps [of man g cw])
  next
    case (GenRaise e clk)
    with assms(2) [OF GenRaise] show ?thesis
      by (simp add: execute_loop.simps [of man g cw])
  next
    case NoClock
    with assms(1) [OF NoClock] show ?thesis
      by (simp add: execute_loop.simps [of man g cw])
  qed
qed

lemma execute_loop_keeps:
  "prev_state (fst (snd (execute_loop man g cw))) = prev_state (fst cw)
     \<and> current_state (fst (snd (execute_loop man g cw))) = current_state (fst cw)
     \<and> q_bu_lenu (fst (snd (execute_loop man g cw))) = q_bu_lenu (fst cw)
     \<and> maneuvers (fst (snd (execute_loop man g cw))) = maneuvers (fst cw)"
  by (rule execute_loop_induct [where P = "\<lambda>man g cw rc.
        prev_state (fst (snd rc)) = prev_state (fst cw)
      \<and> current_state (fst (snd rc)) = current_state (fst cw)
      \<and> q_bu_lenu (fst (snd rc)) = q_bu_lenu (fst cw)
      \<and> maneuvers (fst (snd rc)) = maneuvers (fst cw)"])
     (simp_all add: write_sample_keeps)

lemma execute_loop_Ok_zero:
  "fst (execute_loop man g cw) = Ok () \<longrightarrow>
     slot (snd (execute_loop man g cw)) = Twist
     \<and> slot_writes (snd (snd (execute_loop man g cw))) \<noteq> []
     \<and> last (slot_writes (snd (snd (execute_loop man g cw)))) = Twist"
  by (rule execute_loop_induct [where P = "\<lambda>man g cw rc.
        fst rc = Ok () \<longrightarrow> slot (snd rc) = Twist
       \<and> slot_writes (snd (snd rc)) \<noteq> [] \<and> last (slot_writes (snd (snd rc))) = Twist"])
     simp_all


lemma execute_maneuver_keeps:
  assumes "execute_maneuver man cw = (r, cw')"
  shows "prev_state (fst cw') = prev_state (fst cw)"
    and "current_state (fst cw') = current_state (fst cw)"
    and "q_bu_lenu (fst cw') = q_bu_lenu (fst cw)"
    and "maneuvers (fst cw') = maneuvers (fst cw)"
  using assms execute_loop_keeps [of man None cw]
  by (simp_all add: execute_maneuver_def)

lemma run_maneuvers_keeps:
  "run_maneuvers mans cw = (r, cw') \<Longrightarrow>
     prev_state (fst cw') = prev_state (fst cw) \<and> current_state (fst cw') = current_state (fst cw)"
proof (induction mans arbitrary: cw)
  case Nil
  then show ?case by simp
next
  case (Cons man mans)
  obtain r1 cw1 where e: "execute_maneuver man cw = (r1, cw1)"
    by (cases "execute_maneuver man cw")
  note k = execute_maneuver_keeps(1,2) [OF e]
  show ?case
  proof (cases r1)
    case (Ok u)
    with Cons.prems e have "run_maneuvers mans cw1 = (r, cw')" by simp
    from Cons.IH [OF this] k show ?thesis by simp
  next
    case (Raise err)
    with Cons.prems e k show ?thesis by auto
  next
    case Blocked
    with Cons.prems e k show ?thesis by auto
  qed
qed

lemma state_cb_modes:
  assumes "state_cb msg cw = (r, cw')"
  shows "prev_state (fst cw') = current_state (fst cw) \<and> current_state (fst cw') = msg"
proof (cases "mode msg = ''OFFBOARD'' \<and> mode (current_state (fst cw)) \<noteq> ''OFFBOARD''")
  case True
  define cw5 where
    "cw5 = (fst cw \<lparr> prev_state := current_state (fst cw), current_state := msg \<rparr>, snd cw)"
  have p: "prev_state (fst cw5) = current_state (fst cw)"
    and c: "current_state (fst cw5) = msg"
    by (simp_all add: cw5_def)
  have run: "run_maneuvers (maneuvers (fst cw5)) cw5 = (r, cw')"
    using assms True
    by (simp add: state_cb_def Let_def hover_def start_streaming_offboard_points_def
        stop_streaming_offboard_points_def cw5_def)
  from run_maneuvers_keeps [OF run] p c show ?thesis by simp
next
  case False
  with assms show ?thesis
    by (auto simp: state_cb_def Let_def hover_def start_streaming_offboard_points_def
        stop_streaming_offboard_points_def split: if_splits)
qed

lemma load_global_MAX_SPEED:
  "load_global ''MAX_SPEED'' = Inl (NameError ''global name MAX_SPEED is not defined'')"
  by (simp add: load_global_def module_globals_def)

lemma run_streaming_body_cases:
  "run_streaming_body (Some t) =
     (if sqrt ((linear_x t)\<^sup>2 + (linear_y t)\<^sup>2 + (linear_z t)\<^sup>2) > MAX_SPEED
      then Inl (NameError ''global name MAX_SPEED is not defined'')
      else Inr (Some t))"
  by (simp add: run_streaming_body_def load_global_MAX_SPEED Let_def)

lemma rotation_matrix_pi_x:
  "rotation_matrix pi [1, 0, 0] = [[1, 0, 0, 0], [0, - 1, 0, 0], [0, 0, - 1, 0], [0, 0, 0, 1]]"
  by (simp add: rotation_matrix_def unit_vector_def dot_def Let_def)

lemma R_lned2lenu_eq:
  "R_lned2lenu = [[1, 0, 0, 0], [0, - 1, 0, 0], [0, 0, - 1, 0], [0, 0, 0, 1]]"
  by (simp add: R_lned2lenu_def R_lenu2lned_def rotation_matrix_pi_x mat_T_def column_def upt_rec)

lemma R_fc2bu_eq:
  "R_fc2bu = [[0, 0, 1, 0], [- 1, 0, 0, 0], [0, - 1, 0, 0], [0, 0, 0, 1]]"
  by (simp add: R_fc2bu_def R_bd2bu_def R_bu2bd_def R_fc2bd_def rotation_matrix_pi_x
      concatenate_matrices_def mat_T_def column_def upt_rec dot_def)

lemma length_three: "length v = 3 \<Longrightarrow> v = [v ! 0, v ! 1, v ! 2]"
  by (cases v; cases "tl v"; cases "tl (tl v)") auto

lemma coord_transform_lned_lenu:
  "coord_transform [x, y, z] ''lned'' ''lenu'' = Inr [x, - y, - z]"
  by (simp add: coord_transform_def static_attrs_def R_lned2lenu_eq np_dot_def dot_def)

lemma get_lenu_velocity_lned:
  "get_lenu_velocity q [x, y, z] ''lned'' = Inr [x, - y, - z]"
  by (simp add: get_lenu_velocity_def coord_transform_lned_lenu)

lemma write_sample_three:
  "get_lenu_velocity (q_bu_lenu (fst cw)) vel (ref man) = Inr [x, y, z] \<Longrightarrow>
     fst (write_sample man vel cw) = Ok ()"
  by (simp add: write_sample_def Let_def)

lemma execute_loop_polls:
  "\<exists>used. polls (snd cw) = used @ polls (snd (snd (execute_loop man g cw)))
      \<and> list_all go_ahead (butlast used)
      \<and> (used \<noteq> [] \<and> \<not> go_ahead (last used) \<longrightarrow>
           fst (execute_loop man g cw) = Ok ()
           \<and> length (slot_writes (snd (snd (execute_loop man g cw))))
               = length (slot_writes (snd cw)) + 4 * length used + 1)"
proof (rule execute_loop_induct [where P = "\<lambda>man g cw rc.
    \<exists>used. polls (snd cw) = used @ polls (snd (snd rc))
      \<and> list_all go_ahead (butlast used)
      \<and> (used \<noteq> [] \<and> \<not> go_ahead (last used) \<longrightarrow>
           fst rc = Ok ()
           \<and> length (slot_writes (snd (snd rc))) = length (slot_writes (snd cw)) + 4 * length used + 1)"],
    goal_cases)
  case (1 man g cw)
  show ?case by (rule exI [of _ "[]"]) simp
next
  case (2 man g cw e clk)
  show ?case by (rule exI [of _ "[]"]) simp
next
  case (3 man g cw clk)
  show ?case by (rule exI [of _ "[]"]) simp
next
  case (4 man g cw vel t0 clk e cw1)
  from write_sample_keeps(6) [OF 4(2)] show ?case
    by (intro exI [of _ "[]"]) simp
next
  case (5 man g cw vel t0 clk cw1)
  from write_sample_keeps(6) [OF 5(2)] show ?case
    by (intro exI [of _ "[]"]) simp
next
  case (6 man g cw vel t0 clk cw1 is_shutdown md ps)
  from write_sample_keeps(6) [OF 6(2)] write_sample_Ok_writes [OF 6(2)] 6(3) 6(4)
  show ?case
    by (intro exI [of _ "[(is_shutdown, md)]"]) simp
next
  case (7 man g cw vel t0 clk cw1 is_shutdown md ps)
  let ?rc = "execute_loop man (Some t0) (set_polls ps cw1)"
  from 7(5) obtain used where
    u1: "ps = used @ polls (snd (snd ?rc))" and
    u2: "list_all go_ahead (butlast used)" and
    u3: "used \<noteq> [] \<and> \<not> go_ahead (last used) \<longrightarrow>
           fst ?rc = Ok ()
           \<and> length (slot_writes (snd (snd ?rc))) = length (slot_writes (snd cw1)) + 4 * length used + 1"
    by auto
  have g: "go_ahead (is_shutdown, md)" using 7(4) by (simp add: go_ahead_def)
  from write_sample_keeps(6) [OF 7(2)] 7(3)
  have p: "polls (snd cw) = (is_shutdown, md) # ps" by simp
  from write_sample_Ok_writes [OF 7(2)]
  have w: "length (slot_writes (snd cw1)) = length (slot_writes (snd cw)) + 4" by simp
  show ?case
  proof (intro exI [of _ "(is_shutdown, md) # used"] conjI)
    from p u1 show "polls (snd cw) = ((is_shutdown, md) # used) @ polls (snd (snd ?rc))" by simp
    from u2 g show "list_all go_ahead (butlast ((is_shutdown, md) # used))" by simp
    from u3 g w show "(is_shutdown, md) # used \<noteq> [] \<and> \<not> go_ahead (last ((is_shutdown, md) # used)) \<longrightarrow>
      fst ?rc = Ok () \<and> length (slot_writes (snd (snd ?rc)))
        = length (slot_writes (snd cw)) + 4 * length ((is_shutdown, md) # used) + 1"
      by (cases "used = []") simp_all
  qed
qed

lemma line_parametric_eq:
  "d \<noteq> 0 \<Longrightarrow> line_parametric disp d t = Inr (map (\<lambda>x. smooth_line_velocity x d t) disp)"
  by (induction disp) (simp_all add: smooth_line_velocity_def)

lemma smooth_line_ends:
  "smooth_line_velocity x d 0 = 0" "smooth_line_velocity x d d = 0"
  by (simp_all add: smooth_line_velocity_def)

lemma smooth_line_deriv:
  assumes "d \<noteq> 0"
  shows "(smooth_line_position x d has_real_derivative smooth_line_velocity x d t) (at t)"
  unfolding smooth_line_position_def smooth_line_velocity_def
  using assms
  by (auto intro!: derivative_eq_intros simp: field_simps power2_eq_square power3_eq_cube)

lemma smooth_line_total:
  "d \<noteq> 0 \<Longrightarrow> smooth_line_position x d d - smooth_line_position x d 0 = x"
  by (simp add: smooth_line_position_def field_simps)

lemma partial_sum:
  assumes "d \<noteq> 0" and "n \<noteq> 0"
  shows "(\<Sum>k<m. smooth_line_velocity x d (real k * d / real n) * (d / real n))
         = x * (3 * real m * (real m - 1) / (real n) ^ 2
                - real m * (real m - 1) * (2 * real m - 1) / (real n) ^ 3)"
proof (induction m)
  case 0
  show ?case by simp
next
  case (Suc m)
  have "smooth_line_velocity x d (real m * d / real n) * (d / real n)
        = x * (6 * real m / (real n) ^ 2 - 6 * (real m) ^ 2 / (real n) ^ 3)"
    using assms
    by (simp add: smooth_line_velocity_def field_simps power2_eq_square power3_eq_cube)
  then have "(\<Sum>k<Suc m. smooth_line_velocity x d (real k * d / real n) * (d / real n))
        = x * (3 * real m * (real m - 1) / (real n) ^ 2
                - real m * (real m - 1) * (2 * real m - 1) / (real n) ^ 3)
          + x * (6 * real m / (real n) ^ 2 - 6 * (real m) ^ 2 / (real n) ^ 3)"
    using Suc by simp
  also have "\<dots> = x * (3 * real (Suc m) * (real (Suc m) - 1) / (real n) ^ 2
                - real (Suc m) * (real (Suc m) - 1) * (2 * real (Suc m) - 1) / (real n) ^ 3)"
    using assms(2)
    by (simp add: field_simps power2_eq_square power3_eq_cube)
  finally show ?case .
qed

lemma riemann_sum_closed:
  assumes "d \<noteq> 0" and "n \<noteq> 0"
  shows "riemann_sum (smooth_line_velocity x d) d n = x * (1 - 1 / (real n) ^ 2)"
  unfolding riemann_sum_def partial_sum [OF assms]
  using assms by (simp add: field_simps power2_eq_square power3_eq_cube)

lemma riemann_sum_limit:
  assumes "d \<noteq> 0"
  shows "(\<lambda>n. riemann_sum (smooth_line_velocity x d) d n) \<longlonglongrightarrow> x"
proof -
  have "(\<lambda>n. 1 / real n) \<longlonglongrightarrow> 0"
    by (rule lim_1_over_n)
  then have "(\<lambda>n. (1 / real n) ^ 2) \<longlonglongrightarrow> 0 ^ 2"
    by (rule tendsto_power)
  then have "(\<lambda>n. x * (1 - (1 / real n) ^ 2)) \<longlonglongrightarrow> x * (1 - 0 ^ 2)"
    by (intro tendsto_intros)
  then have lim: "(\<lambda>n. x * (1 - 1 / (real n) ^ 2)) \<longlonglongrightarrow> x"
    by (simp add: power_one_over)
  have "\<forall>\<^sub>F n in sequentially. x * (1 - 1 / (real n) ^ 2) = riemann_sum (smooth_line_velocity x d) d n"
    using eventually_gt_at_top [of 0]
  proof eventually_elim
    case (elim n)
    then have "n \<noteq> 0" by simp
    from riemann_sum_closed [OF assms this] show ?case by simp
  qed
  with lim show ?thesis by (rule Lim_transform_eventually)
qed

lemma write_sample_lenu:
  assumes "length v = 3" and "ref man = ''lenu''"
  shows "\<exists>cw1. write_sample man v cw = (Ok (), cw1)
           \<and> clock (snd cw1) = clock (snd cw) \<and> polls (snd cw1) = polls (snd cw)"
proof -
  from assms have "get_lenu_velocity (q_bu_lenu (fst cw)) v (ref man) = Inr [v ! 0, v ! 1, v ! 2]"
    using length_three [of v] by (simp add: get_lenu_velocity_def)
  then have "fst (write_sample man v cw) = Ok ()" by (rule write_sample_three)
  then have w: "write_sample man v cw = (Ok (), snd (write_sample man v cw))"
    by (metis prod.collapse)
  from write_sample_keeps(6,7) [OF w] w show ?thesis by metis
qed

lemma constant_loop_completes:
  assumes "length v = 3"
    and "\<not> (t_end - t0 < d)"
  shows "list_all (\<lambda>t. t - t0 < d) ts \<Longrightarrow> list_all go_ahead ps \<Longrightarrow> length ps = length ts \<Longrightarrow>
         clock (snd cw) = ts @ t_end # later \<Longrightarrow> polls (snd cw) = ps @ later_polls \<Longrightarrow>
         fst (execute_loop (s_man v d ''lenu'') (Some t0) cw) = Ok ()
         \<and> slot (snd (execute_loop (s_man v d ''lenu'') (Some t0) cw)) = Twist
         \<and> clock (snd (snd (execute_loop (s_man v d ''lenu'') (Some t0) cw))) = later
         \<and> polls (snd (snd (execute_loop (s_man v d ''lenu'') (Some t0) cw))) = later_polls"
proof (induction ts arbitrary: ps cw)
  case Nil
  with assms(2) show ?case
    by (simp add: execute_loop.simps [of _ _ cw])
next
  case (Cons t ts)
  from Cons.prems(3) obtain p ps' where ps: "ps = p # ps'" by (cases ps) auto
  obtain sd md where p: "p = (sd, md)" by (cases p)
  from Cons.prems(2) ps p have go: "\<not> (sd \<or> md \<noteq> ''OFFBOARD'')"
    by (simp add: go_ahead_def)
  from Cons.prems(1,4)
  have y: "next_sample (s_man v d ''lenu'') (Some t0) (clock (snd cw)) = Yield v t0 (ts @ t_end # later)"
    by simp
  from write_sample_lenu [OF assms(1), of "s_man v d ''lenu''" "set_clock (ts @ t_end # later) cw"]
  obtain cw1 where w: "write_sample (s_man v d ''lenu'') v (set_clock (ts @ t_end # later) cw) = (Ok (), cw1)"
    and c1: "clock (snd cw1) = ts @ t_end # later" and p1: "polls (snd cw1) = polls (snd cw)"
    by auto
  from p1 Cons.prems(5) ps p have pl: "polls (snd cw1) = (sd, md) # ps' @ later_polls" by simp
  have unfold: "execute_loop (s_man v d ''lenu'') (Some t0) cw
      = execute_loop (s_man v d ''lenu'') (Some t0) (set_polls (ps' @ later_polls) cw1)"
    using y w pl go by (simp add: execute_loop.simps [of _ _ cw])
  have "fst (execute_loop (s_man v d ''lenu'') (Some t0) (set_polls (ps' @ later_polls) cw1)) = Ok ()
         \<and> slot (snd (execute_loop (s_man v d ''lenu'') (Some t0) (set_polls (ps' @ later_polls) cw1))) = Twist
         \<and> clock (snd (snd (execute_loop (s_man v d ''lenu'') (Some t0) (set_polls (ps' @ later_polls) cw1)))) = later
         \<and> polls (snd (snd (execute_loop (s_man v d ''lenu'') (Some t0) (set_polls (ps' @ later_polls) cw1)))) = later_polls"
    using Cons.prems(1,2,3) ps c1
    by (intro Cons.IH [of ps']) simp_all
  with unfold show ?case by simp
qed

lemma constant_maneuver_completes:
  assumes "length v = 3" and "\<not> (t_end - t0 < d)"
    and "list_all (\<lambda>t. t - t0 < d) ts" and "list_all go_ahead ps" and "length ps = length ts"
    and "clock (snd cw) = t0 # ts @ t_end # later" and "polls (snd cw) = ps @ later_polls"
  shows "fst (execute_maneuver (s_man v d ''lenu'') cw) = Ok ()
         \<and> slot (snd (execute_maneuver (s_man v d ''lenu'') cw)) = Twist
         \<and> clock (snd (snd (execute_maneuver (s_man v d ''lenu'') cw))) = later
         \<and> polls (snd (snd (execute_maneuver (s_man v d ''lenu'') cw))) = later_polls"
proof -
  let ?cw = "set_clock (ts @ t_end # later) cw"
  have s: "set_clock clk (set_clock clk' cw) = set_clock clk cw" for clk clk'
    by (simp add: set_clock_def)
  have "execute_loop (s_man v d ''lenu'') None cw = execute_loop (s_man v d ''lenu'') (Some t0) ?cw"
  proof (cases ts)
    case Nil
    with assms(2,6) show ?thesis
      by (simp add: execute_loop.simps [of _ None cw] execute_loop.simps [of _ "Some t0" ?cw] s)
  next
    case (Cons t ts')
    with assms(3,6) show ?thesis
      by (simp add: execute_loop.simps [of _ None cw] execute_loop.simps [of _ "Some t0" ?cw] s)
  qed
  moreover have "clock (snd ?cw) = ts @ t_end # later" "polls (snd ?cw) = ps @ later_polls"
    using assms(7) by simp_all
  ultimately show ?thesis
    using constant_loop_completes [OF assms(1,2,3,4,5), of ?cw later later_polls]
    by (simp add: execute_maneuver_def)
qed

lemma get_lenu_velocity_fc_level:
  "get_lenu_velocity (Some [0, 0, 0, 1]) [x, y, z] ''fc'' = Inr [z, - x, - y]"
  by (simp add: get_lenu_velocity_def coord_transform_def static_attrs_def R_fc2bu_eq
      np_dot_def dot_def quaternion_matrix_def EPS_def Let_def)

section \<open>Properties of the translation controller\<close>

text \<open>
  C1. Each tick of the streaming loop is to publish the slot's vector when its norm is at
  most MAX_SPEED and the vector scaled down to norm MAX_SPEED otherwise. The code reads
  the unbound module name MAX_SPEED in the scaling branch: with the slot at (1, 0, 0),
  norm 1, the tick raises a NameError and publishes nothing.
\<close>

theorem run_streaming_body_raises_over_limit:
  "run_streaming_body (Some (Twist \<lparr> linear_x := 1 \<rparr>)) =
     Inl (NameError ''global name MAX_SPEED is not defined'')"
  by (simp add: run_streaming_body_cases MAX_SPEED_def Twist_def)

text \<open>
  C2, as stated, fails. Two maneuvers are configured; at the first sample boundary the mode
  read is MANUAL. The first maneuver stops there, yet the second one is started and its
  sample (0, 2, 0) is written to the slot before its own boundary test.
\<close>

theorem later_maneuver_written_after_abort:
  "slot_writes (snd (snd (state_cb \<lparr> mode = ''OFFBOARD'' \<rparr>
     (init [s_man [1, 0, 0] 5 ''lenu'', s_man [0, 2, 0] 5 ''lenu''],
      \<lparr> clock = [0, 1 / 10, 2 / 10, 3 / 10],
        polls = [(False, ''MANUAL''), (False, ''MANUAL'')],
        slot_writes = [] \<rparr>))))
   = [Twist, Twist \<lparr> linear_x := 1 \<rparr>, Twist \<lparr> linear_x := 1 \<rparr>, Twist \<lparr> linear_x := 1 \<rparr>, Twist,
      Twist, Twist, Twist \<lparr> linear_y := 2 \<rparr>, Twist \<lparr> linear_y := 2 \<rparr>, Twist]"
  by (simp add: state_cb_def execute_maneuver_def write_sample_def set_slot_def set_clock_def
      set_polls_def slot_def Let_def init_def State_def hover_def
      pose_sub_cb_def start_streaming_offboard_points_def stop_streaming_offboard_points_def get_lenu_velocity_def Twist_def)

text \<open>
  C2, amended. When a sample boundary is reached at which the process is shutting down or
  the mode read is not OFFBOARD, the current maneuver is aborted there: \<open>execute_maneuver\<close>
  reads no further boundary, has written one sample for each boundary read and nothing after
  them but the reset of the slot to zero, and returns. The remaining maneuvers of the list
  are still executed in order from that state.
\<close>

theorem abort_ends_current_maneuver:
  assumes run: "execute_maneuver man cw = (r, cw')"
    and boundary: "polls (snd cw) = passed @ p # rest"
    and reached: "length (polls (snd cw')) \<le> length rest"
    and abort: "\<not> go_ahead p"
  shows "r = Ok () \<and> polls (snd cw') = rest \<and> slot cw' = Twist
         \<and> length (slot_writes (snd cw')) = length (slot_writes (snd cw)) + 4 * (length passed + 1) + 1
         \<and> run_maneuvers (man # mans) cw = run_maneuvers mans cw'"
proof -
  from execute_loop_polls [of cw man None] run obtain used where
    u1: "polls (snd cw) = used @ polls (snd cw')" and
    u2: "list_all go_ahead (butlast used)" and
    u3: "used \<noteq> [] \<and> \<not> go_ahead (last used) \<longrightarrow>
           r = Ok () \<and> length (slot_writes (snd cw')) = length (slot_writes (snd cw)) + 4 * length used + 1"
    by (auto simp: execute_maneuver_def)
  define k where "k = length rest - length (polls (snd cw'))"
  from u1 boundary have eq: "used @ polls (snd cw') = passed @ p # rest" by simp
  then have "length used + length (polls (snd cw')) = length passed + 1 + length rest"
    by (metis length_append length_Cons Suc_eq_plus1 add.assoc add.commute)
  with reached have len: "length used = length passed + 1 + k" by (simp add: k_def)
  have "used = take (length used) (used @ polls (snd cw'))" by simp
  also have "\<dots> = take (length passed + 1 + k) (passed @ p # rest)" using eq len by simp
  also have "\<dots> = passed @ p # take k rest" by simp
  finally have used: "used = passed @ p # take k rest" .
  have empty: "take k rest = []"
  proof (rule ccontr)
    assume ne: "take k rest \<noteq> []"
    then have "butlast used = passed @ p # butlast (take k rest)"
      using used by (simp add: butlast_append)
    with u2 have "go_ahead p" by simp
    with abort show False by simp
  qed
  with used have used': "used = passed @ [p]" by simp
  with eq have rest: "polls (snd cw') = rest" by simp
  from used' u3 abort have ok: "r = Ok ()"
    and writes: "length (slot_writes (snd cw')) = length (slot_writes (snd cw)) + 4 * (length passed + 1) + 1"
    by simp_all
  from run ok have run': "execute_maneuver man cw = (Ok (), cw')" by simp
  then have "slot cw' = Twist" using execute_loop_Ok_zero [of man None cw]
    by (simp add: execute_maneuver_def)
  moreover from run' have "run_maneuvers (man # mans) cw = run_maneuvers mans cw'" by simp
  ultimately show ?thesis using ok rest writes by simp
qed

theorem abort_ends_current_maneuver_witness:
  "execute_maneuver (s_man [1, 0, 0] 5 ''lenu'')
     (init [], \<lparr> clock = [0, 1 / 10, 2 / 10, 3 / 10],
                polls = [(False, ''OFFBOARD''), (False, ''MANUAL''), (False, ''OFFBOARD'')],
                slot_writes = [] \<rparr>)
   = (Ok (), init [],
      \<lparr> clock = [3 / 10], polls = [(False, ''OFFBOARD'')],
        slot_writes = [Twist, Twist \<lparr> linear_x := 1 \<rparr>, Twist \<lparr> linear_x := 1 \<rparr>,
                       Twist \<lparr> linear_x := 1 \<rparr>,
                       Twist, Twist \<lparr> linear_x := 1 \<rparr>, Twist \<lparr> linear_x := 1 \<rparr>,
                       Twist \<lparr> linear_x := 1 \<rparr>, Twist] \<rparr>)
   \<and> \<not> go_ahead (False, ''MANUAL'')
   \<and> run_maneuvers [s_man [1, 0, 0] 5 ''lenu'', s_man [0, 2, 0] 5 ''lenu'']
       (init [], \<lparr> clock = [0, 1 / 10, 2 / 10, 3 / 10],
                  polls = [(False, ''OFFBOARD''), (False, ''MANUAL''), (False, ''OFFBOARD'')],
                  slot_writes = [] \<rparr>)
     = run_maneuvers [s_man [0, 2, 0] 5 ''lenu'']
       (init [], \<lparr> clock = [3 / 10], polls = [(False, ''OFFBOARD'')],
        slot_writes = [Twist, Twist \<lparr> linear_x := 1 \<rparr>, Twist \<lparr> linear_x := 1 \<rparr>,
                       Twist \<lparr> linear_x := 1 \<rparr>,
                       Twist, Twist \<lparr> linear_x := 1 \<rparr>, Twist \<lparr> linear_x := 1 \<rparr>,
                       Twist \<lparr> linear_x := 1 \<rparr>, Twist] \<rparr>)"
proof -
  let ?cw = "(init [], \<lparr> clock = [0, 1 / 10, 2 / 10, 3 / 10],
                polls = [(False, ''OFFBOARD''), (False, ''MANUAL''), (False, ''OFFBOARD'')],
                slot_writes = [] \<rparr>)"
  let ?cw' = "(init [],
      \<lparr> clock = [3 / 10], polls = [(False, ''OFFBOARD'')],
        slot_writes = [Twist, Twist \<lparr> linear_x := 1 \<rparr>, Twist \<lparr> linear_x := 1 \<rparr>,
                       Twist \<lparr> linear_x := 1 \<rparr>,
                       Twist, Twist \<lparr> linear_x := 1 \<rparr>, Twist \<lparr> linear_x := 1 \<rparr>,
                       Twist \<lparr> linear_x := 1 \<rparr>, Twist] \<rparr>)"
  have run: "execute_maneuver (s_man [1, 0, 0] 5 ''lenu'') ?cw = (Ok (), ?cw')"
    by (simp add: state_cb_def execute_maneuver_def write_sample_def set_slot_def set_clock_def
      set_polls_def slot_def Let_def init_def State_def hover_def
      pose_sub_cb_def start_streaming_offboard_points_def stop_streaming_offboard_points_def get_lenu_velocity_def Twist_def)
  have boundary: "polls (snd ?cw) = [(False, ''OFFBOARD'')] @ (False, ''MANUAL'') # [(False, ''OFFBOARD'')]"
    by simp
  have reached: "length (polls (snd ?cw')) \<le> length [(False, ''OFFBOARD'')]" by simp
  have abort: "\<not> go_ahead (False, ''MANUAL'')" by (simp add: go_ahead_def)
  from abort_ends_current_maneuver [OF run boundary reached abort, of "[s_man [0, 2, 0] 5 ''lenu'']"]
    run abort
  show ?thesis by simp
qed

text \<open>
  C3, as stated, fails. With no pose received, a sample in the body-up frame does not fail
  alone: the callback raises, and the second maneuver, given in a world frame, is never
  started (its clock readings and boundaries are left unread).
\<close>

theorem body_frame_without_pose_counterexample:
  "state_cb \<lparr> mode = ''OFFBOARD'' \<rparr>
     (init [s_man [1, 0, 0] 5 ''bu'', s_man [0, 2, 0] 5 ''lenu''],
      \<lparr> clock = [0, 1 / 10, 2 / 10, 3 / 10],
        polls = [(False, ''OFFBOARD''), (False, ''OFFBOARD'')],
        slot_writes = [] \<rparr>)
   = (Raise (TypeError ''NoneType object has no attribute __getitem__''),
      init [s_man [1, 0, 0] 5 ''bu'', s_man [0, 2, 0] 5 ''lenu'']
        \<lparr> current_state := \<lparr> mode = ''OFFBOARD'' \<rparr> \<rparr>,
      \<lparr> clock = [2 / 10, 3 / 10],
        polls = [(False, ''OFFBOARD''), (False, ''OFFBOARD'')],
        slot_writes = [Twist] \<rparr>)"
  by (simp add: state_cb_def execute_maneuver_def write_sample_def set_slot_def set_clock_def
      set_polls_def slot_def Let_def init_def State_def hover_def
      pose_sub_cb_def start_streaming_offboard_points_def stop_streaming_offboard_points_def get_lenu_velocity_def quaternion_matrix_def)

text \<open>
  C3, amended. If a maneuver yields a sample in a frame other than \<open>lenu\<close> and \<open>lned\<close>
  while the stored orientation is still \<open>None\<close>, the transform raises a TypeError that
  nothing handles: the slot has been replaced by a zero \<open>Twist()\<close> for that tick, and the
  error leaves \<open>execute_maneuver\<close> and the run of the maneuver list, so that no later
  sample and no later maneuver is executed.
\<close>

theorem body_frame_without_pose_raises:
  assumes "ref man \<noteq> ''lenu''" and "ref man \<noteq> ''lned''"
    and "q_bu_lenu (fst cw) = None"
    and "next_sample man None (clock (snd cw)) = Yield vel t0 clk"
  shows "execute_maneuver man cw =
           (Raise (TypeError ''NoneType object has no attribute __getitem__''),
            set_slot Twist (set_clock clk cw))
       \<and> run_maneuvers (man # mans) cw =
           (Raise (TypeError ''NoneType object has no attribute __getitem__''),
            set_slot Twist (set_clock clk cw))"
proof -
  have "write_sample man vel (set_clock clk cw) =
      (Raise (TypeError ''NoneType object has no attribute __getitem__''),
       set_slot Twist (set_clock clk cw))"
    using assms(1-3)
    by (simp add: write_sample_def Let_def get_lenu_velocity_def quaternion_matrix_def)
  with assms(4) have "execute_maneuver man cw =
           (Raise (TypeError ''NoneType object has no attribute __getitem__''),
            set_slot Twist (set_clock clk cw))"
    by (simp add: execute_maneuver_def execute_loop.simps [of man None cw])
  then show ?thesis by simp
qed

theorem body_frame_without_pose_raises_witness:
  "ref (s_man [1, 0, 0] 5 ''fc'') \<noteq> ''lenu'' \<and> ref (s_man [1, 0, 0] 5 ''fc'') \<noteq> ''lned''
   \<and> q_bu_lenu (fst (init [], \<lparr> clock = [0, 1], polls = [], slot_writes = [] \<rparr>)) = None
   \<and> next_sample (s_man [1, 0, 0] 5 ''fc'') None [0, 1] = Yield [1, 0, 0] 0 []
   \<and> execute_maneuver (s_man [1, 0, 0] 5 ''fc'')
        (init [], \<lparr> clock = [0, 1], polls = [], slot_writes = [] \<rparr>)
      = (Raise (TypeError ''NoneType object has no attribute __getitem__''),
         init [], \<lparr> clock = [], polls = [], slot_writes = [Twist] \<rparr>)"
proof -
  let ?man = "s_man [1, 0, 0] 5 ''fc''"
  let ?cw = "(init [], \<lparr> clock = [0, 1], polls = [], slot_writes = [] \<rparr>)"
  have a: "ref ?man \<noteq> ''lenu''" and b: "ref ?man \<noteq> ''lned''" by simp_all
  have c: "q_bu_lenu (fst ?cw) = None" by (simp add: init_def)
  have d: "next_sample ?man None (clock (snd ?cw)) = Yield [1, 0, 0] 0 []" by simp
  from body_frame_without_pose_raises [OF a b c d] a b c d
  show ?thesis by (simp add: set_slot_def set_clock_def init_def)
qed

text \<open>
  C4, as stated, fails. With a pose received, a sample in the marker frame \<open>m\<close>, which has
  no static rotation to the body-up frame, is not skipped: \<open>execute_maneuver\<close> raises at
  that sample and leaves the rest of the maneuver unexecuted.
\<close>

theorem unknown_frame_pair_counterexample:
  "execute_maneuver (s_man [1, 0, 0] 5 ''m'')
     (pose_sub_cb [0, 0, 0, 1] (init []),
      \<lparr> clock = [0, 1 / 10, 2 / 10, 3 / 10],
        polls = [(False, ''OFFBOARD''), (False, ''OFFBOARD'')],
        slot_writes = [] \<rparr>)
   = (Raise (AttributeError
        ''No static transform exists from m to bu. Are you sure these frames are not moving relative to each other?''),
      pose_sub_cb [0, 0, 0, 1] (init []),
      \<lparr> clock = [2 / 10, 3 / 10],
        polls = [(False, ''OFFBOARD''), (False, ''OFFBOARD'')],
        slot_writes = [Twist] \<rparr>)"
  by (simp add: state_cb_def execute_maneuver_def write_sample_def set_slot_def set_clock_def
      set_polls_def slot_def Let_def init_def State_def hover_def
      pose_sub_cb_def start_streaming_offboard_points_def stop_streaming_offboard_points_def get_lenu_velocity_def quaternion_matrix_def EPS_def dot_def
      coord_transform_def static_attrs_def no_static_transform_def)

text \<open>
  C4, amended. A transform between two different frames with no rotation attribute for the
  pair raises an AttributeError whose message names both frames. When that happens for a
  maneuver sample (a frame with no rotation to \<open>bu\<close>, the orientation being known), nothing
  handles the error: the slot has been replaced by a zero \<open>Twist()\<close> for that tick, and the
  error leaves \<open>execute_maneuver\<close> and the run of the maneuver list.
\<close>

theorem unknown_frame_pair_raises:
  assumes "fin \<noteq> fout"
    and "map_of static_attrs (''R_'' @ fin @ ''2'' @ fout) = None"
  shows "coord_transform v fin fout =
           Inl (AttributeError (''No static transform exists from '' @ fin @ '' to '' @ fout
             @ ''. Are you sure these frames are not moving relative to each other?''))
       \<and> (fout = ''bu'' \<and> ref man = fin \<and> fin \<noteq> ''lenu'' \<and> fin \<noteq> ''lned''
            \<and> quaternion_matrix (q_bu_lenu (fst cw)) = Inr R
            \<and> next_sample man None (clock (snd cw)) = Yield v t0 clk \<longrightarrow>
          execute_maneuver man cw =
            (Raise (AttributeError (''No static transform exists from '' @ fin @ '' to bu''
               @ ''. Are you sure these frames are not moving relative to each other?'')),
             set_slot Twist (set_clock clk cw))
          \<and> run_maneuvers (man # mans) cw =
            (Raise (AttributeError (''No static transform exists from '' @ fin @ '' to bu''
               @ ''. Are you sure these frames are not moving relative to each other?'')),
             set_slot Twist (set_clock clk cw)))"
proof -
  have ct: "coord_transform v fin fout =
           Inl (AttributeError (''No static transform exists from '' @ fin @ '' to '' @ fout
             @ ''. Are you sure these frames are not moving relative to each other?''))"
    using assms by (simp add: coord_transform_def no_static_transform_def)
  have ex: "execute_maneuver man cw =
            (Raise (AttributeError (''No static transform exists from '' @ fin @ '' to bu''
               @ ''. Are you sure these frames are not moving relative to each other?'')),
             set_slot Twist (set_clock clk cw))"
    if h: "fout = ''bu''" "ref man = fin" "fin \<noteq> ''lenu''" "fin \<noteq> ''lned''"
      "quaternion_matrix (q_bu_lenu (fst cw)) = Inr R"
      "next_sample man None (clock (snd cw)) = Yield v t0 clk"
  proof -
    have "write_sample man v (set_clock clk cw) =
      (Raise (AttributeError (''No static transform exists from '' @ fin @ '' to bu''
               @ ''. Are you sure these frames are not moving relative to each other?'')),
             set_slot Twist (set_clock clk cw))"
      using h(1-5) ct by (simp add: write_sample_def Let_def get_lenu_velocity_def)
    with h(6) show ?thesis
      by (simp add: execute_maneuver_def execute_loop.simps [of man None cw])
  qed
  from ct ex show ?thesis by simp
qed

theorem unknown_frame_pair_raises_witness:
  "''m'' \<noteq> ''bu'' \<and> map_of static_attrs (''R_'' @ ''m'' @ ''2'' @ ''bu'') = None
   \<and> coord_transform [1, 0, 0] ''m'' ''bu'' =
       Inl (AttributeError
        ''No static transform exists from m to bu. Are you sure these frames are not moving relative to each other?'')
   \<and> quaternion_matrix (q_bu_lenu (pose_sub_cb [0, 0, 0, 1] (init []))) = Inr identity_matrix
   \<and> next_sample (s_man [1, 0, 0] 5 ''m'') None [0, 1] = Yield [1, 0, 0] 0 []
   \<and> run_maneuvers [s_man [1, 0, 0] 5 ''m'', s_man [0, 2, 0] 5 ''lenu'']
        (pose_sub_cb [0, 0, 0, 1] (init []), \<lparr> clock = [0, 1], polls = [], slot_writes = [] \<rparr>)
      = (Raise (AttributeError
          ''No static transform exists from m to bu. Are you sure these frames are not moving relative to each other?''),
         pose_sub_cb [0, 0, 0, 1] (init []), \<lparr> clock = [], polls = [], slot_writes = [Twist] \<rparr>)"
proof -
  let ?man = "s_man [1, 0, 0] 5 ''m''"
  let ?cw = "(pose_sub_cb [0, 0, 0, 1] (init []), \<lparr> clock = [0, 1], polls = [], slot_writes = [] \<rparr>)"
  have a: "''m'' \<noteq> ''bu''" by simp
  have b: "map_of static_attrs (''R_'' @ ''m'' @ ''2'' @ ''bu'') = None"
    by (simp add: static_attrs_def)
  have c: "quaternion_matrix (q_bu_lenu (fst ?cw)) = Inr identity_matrix"
    by (simp add: pose_sub_cb_def init_def quaternion_matrix_def EPS_def dot_def Let_def
        identity_matrix_def)
  have d: "next_sample ?man None (clock (snd ?cw)) = Yield [1, 0, 0] 0 []" by simp
  from unknown_frame_pair_raises [OF a b, of "[1, 0, 0]" ?man ?cw identity_matrix 0 "[]"
      "[s_man [0, 2, 0] 5 ''lenu'']"] a b c d
  show ?thesis by (simp add: set_slot_def set_clock_def pose_sub_cb_def init_def)
qed

text \<open>
  C5. Iterating a parametric maneuver is to yield f(t) until the elapsed time reaches the
  domain length. The generator tests the elapsed time against the attribute \<open>dur\<close>, which
  the constructor of \<open>par_man\<close> never sets: the first pull raises an AttributeError, for
  every function, domain length, frame and clock.
\<close>

theorem par_man_iteration_raises:
  "next_sample (par_man f domain r) None (start_time # now # clk) =
     GenRaise (AttributeError ''par_man instance has no attribute dur'') clk"
  by simp

text \<open>
  C6. For a smooth-line maneuver of nonzero duration, the closure \<open>parametric\<close> returns for
  every axis the specified profile -6 * disp_i / dur^3 * t * (t - dur), and this is what the
  generator yields at the elapsed time it reads. The profile is zero at t = 0 and at
  t = dur. Its integral from 0 to dur is disp_i: it is the derivative of the position
  profile, which goes from 0 to disp_i, and its Riemann sums over the interval converge to
  disp_i.
\<close>

theorem line_man_velocity_profile:
  assumes "d \<noteq> 0"
  shows "line_parametric disp d t = Inr (map (\<lambda>x. smooth_line_velocity x d t) disp)
       \<and> (now - start_time < d \<longrightarrow>
            next_sample (line_man disp d r) (Some start_time) (now # now' # clk)
              = Yield (map (\<lambda>x. smooth_line_velocity x d (now' - start_time)) disp) start_time clk)
       \<and> smooth_line_velocity x d 0 = 0
       \<and> smooth_line_velocity x d d = 0
       \<and> (\<forall>s. (smooth_line_position x d has_real_derivative smooth_line_velocity x d s) (at s))
       \<and> smooth_line_position x d d - smooth_line_position x d 0 = x
       \<and> (\<lambda>n. riemann_sum (smooth_line_velocity x d) d n) \<longlonglongrightarrow> x"
proof -
  have "next_sample (line_man disp d r) (Some start_time) (now # now' # clk)
      = Yield (map (\<lambda>x. smooth_line_velocity x d (now' - start_time)) disp) start_time clk"
    if "now - start_time < d"
    using that line_parametric_eq [OF assms, of disp "now' - start_time"] by simp
  with line_parametric_eq [OF assms] smooth_line_ends [of x d] smooth_line_deriv [OF assms]
    smooth_line_total [OF assms] riemann_sum_limit [OF assms]
  show ?thesis by simp
qed

theorem line_man_velocity_profile_witness:
  "(5 :: real) \<noteq> 0
   \<and> line_parametric [0, - 1, 0] 5 1 = Inr [0, - (24 / 125), 0]
   \<and> next_sample (line_man [0, - 1, 0] 5 ''fc'') (Some 0) [1, 1, 2] = Yield [0, - (24 / 125), 0] 0 [2]
   \<and> smooth_line_position (- 1) 5 5 - smooth_line_position (- 1) 5 0 = - 1
   \<and> (\<lambda>n. riemann_sum (smooth_line_velocity (- 1) 5) 5 n) \<longlonglongrightarrow> - 1"
proof -
  have h: "(5 :: real) \<noteq> 0" by simp
  from line_man_velocity_profile [OF h, of "[0, - 1, 0]" 1 1 0 "''fc''" 1 "[2]" "- 1"]
  show ?thesis by (simp add: smooth_line_velocity_def)
qed

section \<open>Properties of the command limiter\<close>

text \<open>
  C7. Every incoming velocity command makes the dispatcher publish exactly one message:
  its forward component is the input's forward component clamped to the range from -0.09
  to 0.09, every other component is zero, and nothing else of the dispatcher changes.
  The published message is the same whatever the dispatcher's state is.
\<close>

theorem velocity_command_callback_clamps:
  "velocity_command_callback msg d =
     d \<lparr> setpoint_pub := setpoint_pub d @
          [Twist \<lparr> linear_x := max (- (9 / 100)) (min (9 / 100) (linear_x msg)) \<rparr>] \<rparr>"
  by (simp add: velocity_command_callback_def VELOCITY_COMMAND_LIMIT_def Twist_def
      Let_def max_def min_def)

section \<open>Properties of the controller's state machine\<close>

text \<open>
  C8. Whenever \<open>execute_maneuver\<close> returns, by normal completion of the maneuver or by an
  abort at a sample boundary, the setpoint slot holds the zero velocity, the zero velocity
  is the last value written to it, and the list of maneuvers goes on from that state.
\<close>

theorem execute_maneuver_resets_slot:
  assumes "execute_maneuver man cw = (Ok (), cw')"
  shows "slot cw' = Twist \<and> last (slot_writes (snd cw')) = Twist
         \<and> run_maneuvers (man # mans) cw = run_maneuvers mans cw'"
  using assms execute_loop_Ok_zero [of man None cw]
  by (simp add: execute_maneuver_def)

theorem execute_maneuver_resets_slot_witness:
  "fst (execute_maneuver (s_man [0, - 2 / 10, 0] 5 ''fc'')
         (pose_sub_cb [0, 0, 0, 1] (init []),
          \<lparr> clock = [0, 0, 1, 2, 3, 4, 5],
            polls = [(False, ''OFFBOARD''), (False, ''OFFBOARD''), (False, ''OFFBOARD''),
                     (False, ''OFFBOARD''), (False, ''OFFBOARD'')],
            slot_writes = [] \<rparr>)) = Ok ()
   \<and> slot (snd (execute_maneuver (s_man [0, - 2 / 10, 0] 5 ''fc'')
         (pose_sub_cb [0, 0, 0, 1] (init []),
          \<lparr> clock = [0, 0, 1, 2, 3, 4, 5],
            polls = [(False, ''OFFBOARD''), (False, ''OFFBOARD''), (False, ''OFFBOARD''),
                     (False, ''OFFBOARD''), (False, ''OFFBOARD'')],
            slot_writes = [] \<rparr>))) = Twist
   \<and> execute_maneuver (s_man [0, - 2 / 10, 0] 5 ''fc'')
         (pose_sub_cb [0, 0, 0, 1] (init []),
          \<lparr> clock = [0, 0, 1, 2], polls = [(False, ''MANUAL'')], slot_writes = [] \<rparr>)
       = (Ok (), pose_sub_cb [0, 0, 0, 1] (init []),
          \<lparr> clock = [1, 2], polls = [],
            slot_writes = [Twist, Twist, Twist, Twist \<lparr> linear_z := 2 / 10 \<rparr>, Twist] \<rparr>)"
proof -
  let ?cw = "(pose_sub_cb [0, 0, 0, 1] (init []),
          \<lparr> clock = [0, 0, 1, 2, 3, 4, 5],
            polls = [(False, ''OFFBOARD''), (False, ''OFFBOARD''), (False, ''OFFBOARD''),
                     (False, ''OFFBOARD''), (False, ''OFFBOARD'')],
            slot_writes = [] \<rparr>)"
  let ?cw2 = "(pose_sub_cb [0, 0, 0, 1] (init []),
          \<lparr> clock = [0, 0, 1, 2], polls = [(False, ''MANUAL'')], slot_writes = [] \<rparr>)"
  let ?man = "s_man [0, - 2 / 10, 0] 5 ''fc''"
  have ok: "fst (execute_maneuver ?man ?cw) = Ok ()"
    by (simp add: execute_maneuver_def write_sample_def set_slot_def set_clock_def
      set_polls_def slot_def Let_def init_def pose_sub_cb_def get_lenu_velocity_fc_level)
  then have run: "execute_maneuver ?man ?cw = (Ok (), snd (execute_maneuver ?man ?cw))"
    by (metis prod.collapse)
  have abort: "execute_maneuver ?man ?cw2
       = (Ok (), pose_sub_cb [0, 0, 0, 1] (init []),
          \<lparr> clock = [1, 2], polls = [],
            slot_writes = [Twist, Twist, Twist, Twist \<lparr> linear_z := 2 / 10 \<rparr>, Twist] \<rparr>)"
    by (simp add: execute_maneuver_def write_sample_def set_slot_def set_clock_def
      set_polls_def slot_def Let_def init_def pose_sub_cb_def get_lenu_velocity_fc_level Twist_def)
  from execute_maneuver_resets_slot [OF run] ok abort show ?thesis by simp
qed

text \<open>
  C9. After one or more mode updates, each of which has returned or raised, the stored
  previous state is the state the update before the last one applied (the state the
  controller started with when there was one update only), and the stored current state is
  the last one applied: previous is what current held just before the most recent update.
\<close>

theorem prev_state_after_updates:
  assumes "msgs \<noteq> []" and "state_updates msgs cw = (Ok (), cw')"
  shows "prev_state (fst cw') = last (current_state (fst cw) # butlast msgs)
         \<and> current_state (fst cw') = last msgs"
  using assms
proof (induction msgs arbitrary: cw)
  case Nil
  then show ?case by simp
next
  case (Cons msg msgs)
  obtain r1 cw1 where cb: "state_cb msg cw = (r1, cw1)"
    by (cases "state_cb msg cw")
  note m = state_cb_modes [OF cb]
  from Cons.prems(2) cb have nb: "r1 \<noteq> Blocked" by auto
  with Cons.prems(2) cb have rest: "state_updates msgs cw1 = (Ok (), cw')"
    by (cases r1) simp_all
  show ?case
  proof (cases "msgs = []")
    case True
    with rest m show ?thesis by simp
  next
    case False
    from Cons.IH [OF False rest] m False show ?thesis by simp
  qed
qed

theorem prev_state_after_updates_witness:
  "state_updates [\<lparr> mode = ''POSCTL'' \<rparr>, \<lparr> mode = ''OFFBOARD'' \<rparr>, \<lparr> mode = ''MANUAL'' \<rparr>]
     (init [s_man [1, 0, 0] 1 ''lenu''],
      \<lparr> clock = [0, 0, 2], polls = [(False, ''OFFBOARD'')], slot_writes = [] \<rparr>)
   = (Ok (), init [s_man [1, 0, 0] 1 ''lenu'']
               \<lparr> prev_state := \<lparr> mode = ''OFFBOARD'' \<rparr>, current_state := \<lparr> mode = ''MANUAL'' \<rparr> \<rparr>,
      \<lparr> clock = [], polls = [],
        slot_writes = [Twist, Twist, Twist \<lparr> linear_x := 1 \<rparr>, Twist \<lparr> linear_x := 1 \<rparr>,
                       Twist \<lparr> linear_x := 1 \<rparr>, Twist] \<rparr>)
   \<and> prev_state (fst (snd (state_updates
        [\<lparr> mode = ''POSCTL'' \<rparr>, \<lparr> mode = ''OFFBOARD'' \<rparr>, \<lparr> mode = ''MANUAL'' \<rparr>]
        (init [s_man [1, 0, 0] 1 ''lenu''],
         \<lparr> clock = [0, 0, 2], polls = [(False, ''OFFBOARD'')], slot_writes = [] \<rparr>))))
      = \<lparr> mode = ''OFFBOARD'' \<rparr>"
proof -
  let ?msgs = "[\<lparr> mode = ''POSCTL'' \<rparr>, \<lparr> mode = ''OFFBOARD'' \<rparr>, \<lparr> mode = ''MANUAL'' \<rparr>]"
  let ?cw = "(init [s_man [1, 0, 0] 1 ''lenu''],
      \<lparr> clock = [0, 0, 2], polls = [(False, ''OFFBOARD'')], slot_writes = [] \<rparr>)"
  have run: "state_updates ?msgs ?cw
    = (Ok (), init [s_man [1, 0, 0] 1 ''lenu'']
               \<lparr> prev_state := \<lparr> mode = ''OFFBOARD'' \<rparr>, current_state := \<lparr> mode = ''MANUAL'' \<rparr> \<rparr>,
      \<lparr> clock = [], polls = [],
        slot_writes = [Twist, Twist, Twist \<lparr> linear_x := 1 \<rparr>, Twist \<lparr> linear_x := 1 \<rparr>,
                       Twist \<lparr> linear_x := 1 \<rparr>, Twist] \<rparr>)"
    by (simp add: state_cb_def execute_maneuver_def write_sample_def set_slot_def set_clock_def
      set_polls_def slot_def Let_def init_def State_def Twist_def hover_def
      start_streaming_offboard_points_def stop_streaming_offboard_points_def
      get_lenu_velocity_def)
  have ne: "?msgs \<noteq> []" by simp
  from prev_state_after_updates [OF ne run] run show ?thesis by simp
qed

text \<open>
  C10. For a three-component vector the transform to the local ENU frame does not depend on
  the quaternion when the input frame is \<open>lenu\<close> (the vector is returned as it is) or
  \<open>lned\<close> (only the fixed rotation from \<open>lned\<close> to \<open>lenu\<close> is applied, which negates the
  second and third components). So a maneuver sample given in one of these two frames is
  written to the slot without error while the stored quaternion is still \<open>None\<close>.
\<close>

theorem world_frames_ignore_orientation:
  assumes "length v = 3"
  shows "get_lenu_velocity q v ''lenu'' = Inr v
       \<and> get_lenu_velocity q v ''lned'' = coord_transform v ''lned'' ''lenu''
       \<and> get_lenu_velocity q v ''lned'' = Inr [v ! 0, - (v ! 1), - (v ! 2)]
       \<and> (ref man = ''lenu'' \<or> ref man = ''lned'' \<longrightarrow>
            fst (write_sample man v (c \<lparr> q_bu_lenu := None \<rparr>, w)) = Ok ())"
proof -
  from assms have v: "v = [v ! 0, v ! 1, v ! 2]" by (rule length_three)
  have a: "get_lenu_velocity q v ''lenu'' = Inr v"
    using assms by (simp add: get_lenu_velocity_def)
  have b: "get_lenu_velocity q v ''lned'' = Inr [v ! 0, - (v ! 1), - (v ! 2)]" for q
    by (subst v) (rule get_lenu_velocity_lned)
  have c: "coord_transform v ''lned'' ''lenu'' = Inr [v ! 0, - (v ! 1), - (v ! 2)]"
    by (subst v) (rule coord_transform_lned_lenu)
  have d: "fst (write_sample man v (c \<lparr> q_bu_lenu := None \<rparr>, w)) = Ok ()"
    if "ref man = ''lenu'' \<or> ref man = ''lned''"
  proof -
    from that have "\<exists>x y z. get_lenu_velocity (q_bu_lenu (fst (c \<lparr> q_bu_lenu := None \<rparr>, w))) v (ref man)
        = Inr [x, y, z]"
    proof
      assume "ref man = ''lenu''"
      then show ?thesis using assms v by (simp add: get_lenu_velocity_def) metis
    next
      assume "ref man = ''lned''"
      then show ?thesis using b by simp
    qed
    then show ?thesis by (auto intro: write_sample_three)
  qed
  from a b c d show ?thesis by simp
qed

theorem world_frames_ignore_orientation_witness:
  "length [1, 2, 3 :: real] = 3
   \<and> get_lenu_velocity None [1, 2, 3] ''lenu'' = Inr [1, 2, 3]
   \<and> get_lenu_velocity None [1, 2, 3] ''lned'' = Inr [1, - 2, - 3]
   \<and> fst (write_sample (s_man [1, 2, 3] 5 ''lned'') [1, 2, 3]
        (init [] \<lparr> q_bu_lenu := None \<rparr>, \<lparr> clock = [], polls = [], slot_writes = [] \<rparr>)) = Ok ()"
proof -
  have l: "length [1, 2, 3 :: real] = 3" by simp
  from world_frames_ignore_orientation [OF l, of None "s_man [1, 2, 3] 5 ''lned''" "init []"
      "\<lparr> clock = [], polls = [], slot_writes = [] \<rparr>"]
  show ?thesis by (simp add: coord_transform_lned_lenu)
qed

end
